theory Spec2Isabelle
  imports Complex_Main "HOL-Library.AList"
begin

section \<open>The resolution-and-fallback engine of fulltext-article-downloader\<close>

text \<open>
  This theory embeds \<^verbatim>\<open>fulltext_article_downloader/downloader.py\<close>: the source classifier
  \<^verbatim>\<open>get_publisher_from_doi\<close>, the two static tables, the fallback orchestrator
  \<^verbatim>\<open>download_article\<close> and the batch runner \<^verbatim>\<open>bulk_download_articles\<close>.

  Conventions of the embedding.
  \<^item> A Python \<^verbatim>\<open>str\<close> is a \<open>string\<close>; one \<open>char\<close> stands for one character of the
    Python string.
  \<^item> An exception (any subclass of \<^verbatim>\<open>Exception\<close>) is the value \<open>Raises msg\<close>, where
    \<open>msg\<close> is what \<^verbatim>\<open>str(e)\<close> gives; that text is all the program ever reads of an
    exception.
  \<^item> Everything the program does to the outside world is appended, in program order, to
    a trace of events: HTTP requests of the classifier, calls of a download tool, records
    handed to a logger, lines printed, pauses, directory creation.
  \<^item> What the outside world answers is a parameter \<open>env\<close>. An answer may depend on the
    whole trace so far, so the same tool may fail now and succeed later.
  \<^item> The handler set-up of lines 116 to 135 only decides where log records are delivered;
    the trace holds every record handed to the logger, whatever its destination.
\<close>

subsection \<open>Values, events and the environment\<close>

datatype 'a outcome = Raises string | Returns 'a

datatype level = INFO | WARNING | ERROR

datatype logger = RootLogger | ModuleLogger

datatype event =
    HttpGet string
  | MakeDirs string
  | ToolCall string string string
  | LogRecord logger level string
  | PrintLine string
  | Sleep real

text \<open>
  A response of \<^verbatim>\<open>requests.get\<close>, as far as the classifier reads it: the status code, the
  text of the \<^verbatim>\<open>HTTPError\<close> that \<^verbatim>\<open>raise_for_status\<close> raises for a 4xx or 5xx status,
  and what decoding the body and following the registry's path to the publisher field
  gives (an exception, no field, or the field).
\<close>

datatype response =
  Response (status_code: nat) (http_error: string) (publisher_field: "string option outcome")

text \<open>
  The environment. \<open>requests_get env tr url\<close> is the result of \<^verbatim>\<open>requests.get(url)\<close>
  after the events \<open>tr\<close>. \<open>tool_raises env tr tool doi path\<close> is \<open>Some msg\<close> when the
  function registered under \<open>tool\<close> raises \<open>Exception(msg)\<close> on \<^verbatim>\<open>(doi, path)\<close>, and
  \<open>None\<close> when it returns; every function of \<^verbatim>\<open>tools.py\<close> that returns, returns the
  \<^verbatim>\<open>output_path\<close> it was given. \<open>key_repr env k\<close> is Python's \<^verbatim>\<open>repr(k)\<close>, the text of
  \<^verbatim>\<open>KeyError(k)\<close>. \<open>tqdm_importable\<close> says whether \<^verbatim>\<open>from tqdm import tqdm\<close> succeeds.
\<close>

record env =
  requests_get :: "event list \<Rightarrow> string \<Rightarrow> response outcome"
  tool_raises :: "event list \<Rightarrow> string \<Rightarrow> string \<Rightarrow> string \<Rightarrow> string option"
  key_repr :: "string \<Rightarrow> string"
  tqdm_importable :: bool

subsection \<open>The static tables\<close>

definition PUBLISHER_TOOL_MAP :: "(string \<times> string list) list" where
  "PUBLISHER_TOOL_MAP =
    [(''Elsevier BV'', [''unpaywall'', ''elsevier'']),
     (''Springer Science and Business Media LLC'', [''springerpdf'', ''unpaywall'', ''springeropen'']),
     (''Wiley'', [''wiley'', ''unpaywall'']),
     (''American Chemical Society (ACS)'', [''unpaywall'']),
     (''Royal Society of Chemistry (RSC)'', [''unpaywall'']),
     (''American Institute of Physics (AIP)'', [''unpaywall'']),
     (''American Physical Society (APS)'', [''aps'', ''unpaywall'']),
     (''Oxford University Press (OUP)'', [''unpaywall'']),
     (''Cambridge University Press (CUP)'', [''cambridge'', ''unpaywall'']),
     (''Taylor & Francis'', [''unpaywall'']),
     (''Public Library of Science (PLoS)'', [''plos'', ''unpaywall'']),
     (''bioRxiv'', [''paperscraper'', ''unpaywall'']),
     (''medRxiv'', [''paperscraper'', ''unpaywall'']),
     (''chemRxiv'', [''paperscraper'', ''unpaywall'']),
     (''arXiv'', [''paperscraper'', ''arxiv'', ''unpaywall'']),
     (''eLife Sciences Publications, Ltd'', [''elife'', ''unpaywall'']),
     (''Institute of Electrical and Electronics Engineers (IEEE)'', [''unpaywall''])]"

definition PREPRINT_SERVER_PREFIXES :: "(string \<times> string) list" where
  "PREPRINT_SERVER_PREFIXES =
    [(''10.1101'', ''bioRxiv''),
     (''10.21203'', ''Research Square''),
     (''10.31219'', ''OSF Preprints''),
     (''10.20944'', ''Preprints.org''),
     (''10.26434'', ''chemRxiv''),
     (''10.22541'', ''medRxiv''),
     (''10.31730'', ''EarthArXiv''),
     (''10.1149'', ''ECSarXiv''),
     (''10.3886'', ''SSRN''),
     (''10.33774'', ''Cambridge Open Engage''),
     (''10.2139'', ''SSRN''),
     (''10.53731'', ''arXiv''),
     (''10.48550'', ''arXiv''),
     (''10.57967'', ''engRxiv''),
     (''10.3389'', ''Frontiers Media SA''),
     (''10.4175'', ''Frontiers Media SA'')]"


subsection \<open>The source classifier\<close>

text \<open>\<^verbatim>\<open>doi.split('/')[0]\<close>: the text before the first slash, all of it when there is none.\<close>

definition registrant_prefix :: "string \<Rightarrow> string" where
  "registrant_prefix doi = takeWhile (\<lambda>c. c \<noteq> CHR ''/'') doi"

definition resolve_failed_msg :: "string \<Rightarrow> string \<Rightarrow> string" where
  "resolve_failed_msg doi e = ''Failed to resolve DOI '' @ doi @ '' to publisher: '' @ e"

definition resolve_failed :: "event list \<Rightarrow> string \<Rightarrow> string \<Rightarrow> string option \<times> event list" where
  "resolve_failed tr doi e = (None, tr @ [LogRecord RootLogger ERROR (resolve_failed_msg doi e)])"

definition get_publisher_from_doi :: "env \<Rightarrow> event list \<Rightarrow> string \<Rightarrow> string option \<times> event list" where
  "get_publisher_from_doi env tr doi =
    (let prefix = registrant_prefix doi in
     case map_of PREPRINT_SERVER_PREFIXES prefix of
       Some source \<Rightarrow> (Some source, tr)
     | None \<Rightarrow>
        (let crossref_url = ''https://api.crossref.org/works/'' @ doi;
             tr1 = tr @ [HttpGet crossref_url] in
         case requests_get env tr crossref_url of
           Raises e \<Rightarrow> resolve_failed tr1 doi e
         | Returns r \<Rightarrow>
            if status_code r = 404 then
              (let datacite_url = ''https://api.datacite.org/dois/'' @ doi;
                   tr2 = tr1 @ [HttpGet datacite_url] in
               case requests_get env tr1 datacite_url of
                 Raises e \<Rightarrow> resolve_failed tr2 doi e
               | Returns r2 \<Rightarrow>
                  if status_code r2 = 200 then
                    (case publisher_field r2 of
                       Raises e \<Rightarrow> resolve_failed tr2 doi e
                     | Returns publisher \<Rightarrow> (publisher, tr2))
                  else (None, tr2))
            else if 400 \<le> status_code r \<and> status_code r < 600 then
              resolve_failed tr1 doi (http_error r)
            else
              (case publisher_field r of
                 Raises e \<Rightarrow> resolve_failed tr1 doi e
               | Returns publisher \<Rightarrow> (publisher, tr1))))"

subsection \<open>File names\<close>

text \<open>The character class \<^verbatim>\<open>[A-Za-z0-9._-]\<close> and \<^verbatim>\<open>re.sub(r'[^A-Za-z0-9._-]', '_', doi)\<close>.\<close>

definition allowed_char :: "char \<Rightarrow> bool" where
  "allowed_char c \<longleftrightarrow>
     c \<in> set ''ABCDEFGHIJKLMNOPQRSTUVWXYZabcdefghijklmnopqrstuvwxyz0123456789._-''"

definition sanitize :: "string \<Rightarrow> string" where
  "sanitize doi = map (\<lambda>c. if allowed_char c then c else CHR ''_'') doi"

text \<open>
  The three functions of \<^verbatim>\<open>os.path\<close> the orchestrator and the claims use, as \<^verbatim>\<open>posixpath\<close>
  defines them. \<open>rfind p c\<close> is \<^verbatim>\<open>p.rfind(c)\<close>: the index of the last \<open>c\<close>, or \<open>-1\<close>.
  \<open>splitext\<close> cuts at the last dot of the last path component, unless only dots come
  before it in that component.
\<close>

definition rfind :: "string \<Rightarrow> char \<Rightarrow> int" where
  "rfind p c =
    (if c \<in> set p
     then int (length p) - 1 - int (length (takeWhile (\<lambda>x. x \<noteq> c) (rev p)))
     else - 1)"

definition splitext :: "string \<Rightarrow> string \<times> string" where
  "splitext p =
    (let sepIndex = rfind p CHR ''/'';
         dotIndex = rfind p CHR ''.''
     in if dotIndex > sepIndex \<and>
           list_ex (\<lambda>c. c \<noteq> CHR ''.'')
             (take (nat (dotIndex - (sepIndex + 1))) (drop (nat (sepIndex + 1)) p))
        then (take (nat dotIndex) p, drop (nat dotIndex) p)
        else (p, []))"

definition path_join :: "string \<Rightarrow> string \<Rightarrow> string" where
  "path_join a b =
    (if take 1 b = ''/'' \<or> a = [] then b
     else if last a = CHR ''/'' then a @ b
     else a @ ''/'' @ b)"

definition basename :: "string \<Rightarrow> string" where
  "basename p = drop (nat (rfind p CHR ''/'' + 1)) p"

text \<open>Lines 153 to 165: the extension hint, the file name and the candidate path of one tool.\<close>

definition tool_ext :: "string \<Rightarrow> string" where
  "tool_ext tool = (if tool \<in> set [''elsevier'', ''springeropen''] then ''.xml'' else ''.pdf'')"

definition out_name :: "string \<Rightarrow> string option \<Rightarrow> string \<Rightarrow> string" where
  "out_name doi output_filename tool =
    (case output_filename of
       None \<Rightarrow> sanitize doi @ tool_ext tool
     | Some fname \<Rightarrow>
        if fname \<noteq> [] then
          (case splitext fname of
             (name, ext) \<Rightarrow> if ext = [] then name @ tool_ext tool else fname)
        else sanitize doi @ tool_ext tool)"

definition output_path :: "string \<Rightarrow> string \<Rightarrow> string option \<Rightarrow> string \<Rightarrow> string" where
  "output_path doi output_dir output_filename tool =
     path_join output_dir (out_name doi output_filename tool)"

subsection \<open>The fallback orchestrator\<close>







text \<open>
  Lines 139 to 146. \<^verbatim>\<open>if publisher:\<close> is false for \<^verbatim>\<open>None\<close> and for the empty string.
\<close>

definition default_tools :: "string list" where
  "default_tools = [''unpaywall'', ''crossref_tdm'']"

definition method_list_for :: "string option \<Rightarrow> string list" where
  "method_list_for publisher =
    (case publisher of
       None \<Rightarrow> default_tools
     | Some p \<Rightarrow>
        if p \<noteq> [] then
          (case map_of PUBLISHER_TOOL_MAP p of
             Some ts \<Rightarrow> ts
           | None \<Rightarrow> default_tools)
        else default_tools)"

definition determine_tools ::
  "env \<Rightarrow> event list \<Rightarrow> string \<Rightarrow> string list option \<Rightarrow> string list \<times> event list" where
  "determine_tools env tr doi tools =
    (case tools of
       None \<Rightarrow>
         (case get_publisher_from_doi env tr doi of
            (publisher, tr1) \<Rightarrow> (method_list_for publisher, tr1))
     | Some ts \<Rightarrow> (ts, tr))"


subsection \<open>The batch runner\<close>







subsection \<open>Notions used to state the properties\<close>











subsection \<open>Sample environments\<close>

text \<open>\<^verbatim>\<open>repr\<close> of a string of plain letters: the string in single quotes.\<close>

definition quote_repr :: "string \<Rightarrow> string" where
  "quote_repr k = [CHR 0x27] @ k @ [CHR 0x27]"

text \<open>
  No network; every tool fails with \<^verbatim>\<open>busy\<close> the first time it is called on a DOI and a
  path, and succeeds when called on them again.
\<close>

definition env_flaky :: env where
  "env_flaky =
    \<lparr> requests_get = (\<lambda>tr url. Raises ''offline''),
      tool_raises = (\<lambda>tr tool doi path.
                       if ToolCall tool doi path \<in> set tr then None else Some ''busy''),
      key_repr = quote_repr,
      tqdm_importable = True \<rparr>"


section \<open>Properties\<close>

subsection \<open>One pass of the loop\<close>






subsection \<open>What each part adds to the trace\<close>








subsection \<open>First success wins\<close>




subsection \<open>Exhaustion\<close>




subsection \<open>A name that is no key of the tool table\<close>



subsection \<open>Classification by the static prefix table\<close>

text \<open>
  Claim C5. When the text of the identifier before its first slash is a key of
  \<^verbatim>\<open>PREPRINT_SERVER_PREFIXES\<close>, \<^verbatim>\<open>get_publisher_from_doi\<close> returns the mapped source and
  leaves the trace as it was: no HTTP request is made. The identifiers
  \<^verbatim>\<open>10.48550/arXiv.2504.00812\<close> and \<^verbatim>\<open>10.1101/2025.01.06.631505\<close> classify to \<^verbatim>\<open>arXiv\<close> and
  \<^verbatim>\<open>bioRxiv\<close>, and their strategy lists start with \<^verbatim>\<open>paperscraper\<close>, with \<^verbatim>\<open>unpaywall\<close>
  after it.
\<close>

theorem classify_static_prefix:
  "(map_of PREPRINT_SERVER_PREFIXES (registrant_prefix doi) = Some source \<longrightarrow>
      get_publisher_from_doi env tr doi = (Some source, tr))
   \<and> get_publisher_from_doi env tr ''10.48550/arXiv.2504.00812'' = (Some ''arXiv'', tr)
   \<and> get_publisher_from_doi env tr ''10.1101/2025.01.06.631505'' = (Some ''bioRxiv'', tr)
   \<and> determine_tools env tr ''10.48550/arXiv.2504.00812'' None =
       ([''paperscraper'', ''arxiv'', ''unpaywall''], tr)
   \<and> determine_tools env tr ''10.1101/2025.01.06.631505'' None =
       ([''paperscraper'', ''unpaywall''], tr)"
proof -
  have gen: "\<And>d s. map_of PREPRINT_SERVER_PREFIXES (registrant_prefix d) = Some s \<Longrightarrow>
      get_publisher_from_doi env tr d = (Some s, tr)"
    by (simp add: get_publisher_from_doi_def)
  have p1: "map_of PREPRINT_SERVER_PREFIXES (registrant_prefix ''10.48550/arXiv.2504.00812'') = Some ''arXiv''"
    by (simp add: registrant_prefix_def PREPRINT_SERVER_PREFIXES_def)
  have p2: "map_of PREPRINT_SERVER_PREFIXES (registrant_prefix ''10.1101/2025.01.06.631505'') = Some ''bioRxiv''"
    by (simp add: registrant_prefix_def PREPRINT_SERVER_PREFIXES_def)
  have m1: "method_list_for (Some ''arXiv'') = [''paperscraper'', ''arxiv'', ''unpaywall'']"
    by (simp add: method_list_for_def PUBLISHER_TOOL_MAP_def)
  have m2: "method_list_for (Some ''bioRxiv'') = [''paperscraper'', ''unpaywall'']"
    by (simp add: method_list_for_def PUBLISHER_TOOL_MAP_def)
  show ?thesis
    using gen [of doi source] gen [OF p1] gen [OF p2] m1 m2
    by (simp add: determine_tools_def)
qed

theorem classify_static_prefix_witness:
  "map_of PREPRINT_SERVER_PREFIXES (registrant_prefix ''10.26434/chemrxiv-2024-x'') = Some ''chemRxiv''
   \<and> get_publisher_from_doi env_flaky [] ''10.26434/chemrxiv-2024-x'' = (Some ''chemRxiv'', [])"
proof -
  have h: "map_of PREPRINT_SERVER_PREFIXES (registrant_prefix ''10.26434/chemrxiv-2024-x'') = Some ''chemRxiv''"
    by (simp add: registrant_prefix_def PREPRINT_SERVER_PREFIXES_def)
  from classify_static_prefix [of "''10.26434/chemrxiv-2024-x''" "''chemRxiv''" env_flaky "[]"] h
  show ?thesis by blast
qed

subsection \<open>The strategy list\<close>






subsection \<open>File names\<close>

lemma rfind_last_occurrence:
  assumes "c \<notin> set b"
  shows "rfind (a @ c # b) c = int (length a)"
proof -
  have "\<forall>x\<in>set (rev b). x \<noteq> c" using assms by auto
  then have "takeWhile (\<lambda>x. x \<noteq> c) (rev b @ c # rev a) = rev b"
    by (simp add: takeWhile_tail)
  then show ?thesis by (simp add: rfind_def)
qed

lemma rfind_absent: "c \<notin> set p \<Longrightarrow> rfind p c = - 1"
  by (simp add: rfind_def)

lemma basename_after_slash:
  assumes "CHR ''/'' \<notin> set b"
  shows "basename (a @ CHR ''/'' # b) = b"
proof -
  have "rfind (a @ CHR ''/'' # b) CHR ''/'' = int (length a)"
    using assms by (rule rfind_last_occurrence)
  moreover have "nat (int (length a) + 1) = Suc (length a)" by simp
  ultimately show ?thesis by (simp add: basename_def)
qed

lemma basename_no_slash: "CHR ''/'' \<notin> set b \<Longrightarrow> basename b = b"
  by (simp add: basename_def rfind_absent)

lemma basename_path_join:
  assumes "CHR ''/'' \<notin> set b"
  shows "basename (path_join a b) = b"
proof (cases "a = []")
  case True
  then show ?thesis using assms by (simp add: path_join_def basename_no_slash)
next
  case False
  have nb: "take 1 b \<noteq> ''/''"
    using assms by (cases b) auto
  show ?thesis
  proof (cases "last a = CHR ''/''")
    case True
    then have "a = butlast a @ [CHR ''/'']"
      using False by (metis append_butlast_last_id)
    then have "a @ b = butlast a @ CHR ''/'' # b"
      by (metis append_Cons append_Nil append_assoc)
    then have "path_join a b = butlast a @ CHR ''/'' # b"
      using nb False True by (simp add: path_join_def)
    then show ?thesis using assms by (simp add: basename_after_slash)
  next
    case nl: False
    then have "path_join a b = a @ CHR ''/'' # b"
      using nb False by (simp add: path_join_def)
    then show ?thesis using assms by (simp add: basename_after_slash)
  qed
qed

lemma underscore_allowed: "allowed_char CHR ''_''"
  by (simp add: allowed_char_def)

lemma allowed_sanitize: "c \<in> set (sanitize doi) \<Longrightarrow> allowed_char c"
  by (auto simp: sanitize_def underscore_allowed)

lemma allowed_tool_ext: "c \<in> set (tool_ext tool) \<Longrightarrow> allowed_char c"
proof -
  have "\<forall>c \<in> set ''.xml''. allowed_char c" "\<forall>c \<in> set ''.pdf''. allowed_char c"
    by (simp_all add: allowed_char_def)
  then show "c \<in> set (tool_ext tool) \<Longrightarrow> allowed_char c"
    unfolding tool_ext_def by (cases "tool \<in> set [''elsevier'', ''springeropen'']") auto
qed

lemma slash_not_allowed: "\<not> allowed_char CHR ''/''"
  by (simp add: allowed_char_def)

lemma splitext_no_ext:
  assumes "snd (splitext fname) = []"
  shows "fst (splitext fname) = fname"
proof (cases "splitext fname = (fname, [])")
  case True
  then show ?thesis by simp
next
  case False
  then have "splitext fname =
      (take (nat (rfind fname CHR ''.'')) fname, drop (nat (rfind fname CHR ''.'')) fname)"
    by (simp add: splitext_def Let_def split: if_splits)
  with assms show ?thesis by simp
qed

text \<open>
  Claim C7. Without an explicit file name, the name generated for a tool is the
  sanitized identifier followed by the tool's extension; it is the last component of the
  candidate path whatever the output directory, and all its characters are letters,
  digits, full stop, underscore or hyphen. The sanitized identifier has the identifier's
  length, keeps its allowed characters and has an underscore in place of each other one.
  For an explicit file name with no extension (as \<^verbatim>\<open>os.path.splitext\<close> sees it) the name
  used is the file name followed by the tool's extension; an empty file name counts as
  none given. The extension is \<^verbatim>\<open>.xml\<close> for \<^verbatim>\<open>elsevier\<close> and \<^verbatim>\<open>springeropen\<close> and \<^verbatim>\<open>.pdf\<close>
  for every other tool.
\<close>

theorem generated_file_name:
  "out_name doi None tool = sanitize doi @ tool_ext tool
   \<and> basename (output_path doi output_dir None tool) = sanitize doi @ tool_ext tool
   \<and> (\<forall>c \<in> set (basename (output_path doi output_dir None tool)). allowed_char c)
   \<and> length (sanitize doi) = length doi
   \<and> (\<forall>i<length doi. sanitize doi ! i = (if allowed_char (doi ! i) then doi ! i else CHR ''_''))
   \<and> (fname \<noteq> [] \<and> snd (splitext fname) = [] \<longrightarrow>
        out_name doi (Some fname) tool = fname @ tool_ext tool)
   \<and> out_name doi (Some []) tool = sanitize doi @ tool_ext tool
   \<and> tool_ext tool =
        (if tool = ''elsevier'' \<or> tool = ''springeropen'' then ''.xml'' else ''.pdf'')"
proof -
  have z: "out_name doi (Some []) tool = sanitize doi @ tool_ext tool"
    by (simp add: out_name_def)
  have n: "out_name doi None tool = sanitize doi @ tool_ext tool"
    by (simp add: out_name_def)
  have al: "\<forall>c \<in> set (sanitize doi @ tool_ext tool). allowed_char c"
    using allowed_sanitize allowed_tool_ext by auto
  then have ns: "CHR ''/'' \<notin> set (sanitize doi @ tool_ext tool)"
    using slash_not_allowed by blast
  have b: "basename (output_path doi output_dir None tool) = sanitize doi @ tool_ext tool"
    unfolding output_path_def n by (rule basename_path_join [OF ns])
  have l: "length (sanitize doi) = length doi"
    by (simp add: sanitize_def)
  have s: "\<forall>i<length doi. sanitize doi ! i = (if allowed_char (doi ! i) then doi ! i else CHR ''_'')"
    by (simp add: sanitize_def)
  have e: "fname \<noteq> [] \<and> snd (splitext fname) = [] \<longrightarrow>
        out_name doi (Some fname) tool = fname @ tool_ext tool"
  proof
    assume h: "fname \<noteq> [] \<and> snd (splitext fname) = []"
    then have "splitext fname = (fname, [])"
      using splitext_no_ext [of fname] by (simp add: prod_eq_iff)
    with h show "out_name doi (Some fname) tool = fname @ tool_ext tool"
      by (simp add: out_name_def)
  qed
  have x: "tool_ext tool =
        (if tool = ''elsevier'' \<or> tool = ''springeropen'' then ''.xml'' else ''.pdf'')"
    by (simp add: tool_ext_def)
  from al b have al': "\<forall>c \<in> set (basename (output_path doi output_dir None tool)). allowed_char c"
    by metis
  from n b al' l s e z x show ?thesis by blast
qed

theorem generated_file_name_witness:
  "list_all allowed_char (basename (output_path ''10.1234/a.b'' ''out'' None ''unpaywall''))
   \<and> basename (output_path ''10.1234/a.b'' ''out'' None ''unpaywall'') =
       sanitize ''10.1234/a.b'' @ tool_ext ''unpaywall''
   \<and> sanitize ''10.1234/a.b'' @ tool_ext ''unpaywall'' = ''10.1234_a.b.pdf''
   \<and> ''article'' \<noteq> [] \<and> snd (splitext ''article'') = []
   \<and> out_name ''10.1234/a.b'' (Some ''article'') ''elsevier'' = ''article'' @ tool_ext ''elsevier''
   \<and> tool_ext ''elsevier'' = ''.xml''"
proof -
  have h: "''article'' \<noteq> [] \<and> snd (splitext ''article'') = []"
    by (simp add: splitext_def rfind_def)
  have v: "sanitize ''10.1234/a.b'' @ tool_ext ''unpaywall'' = ''10.1234_a.b.pdf''"
          "tool_ext ''elsevier'' = ''.xml''"
    by (simp_all add: sanitize_def allowed_char_def tool_ext_def)
  note t1 = generated_file_name [of "''10.1234/a.b''" "''unpaywall''" "''out''" "''article''"]
  note t2 = generated_file_name [of "''10.1234/a.b''" "''elsevier''" "''out''" "''article''"]
  from t1 have a: "list_all allowed_char
      (basename (output_path ''10.1234/a.b'' ''out'' None ''unpaywall''))"
    unfolding list_all_iff by blast
  from t1 have b: "basename (output_path ''10.1234/a.b'' ''out'' None ''unpaywall'') =
       sanitize ''10.1234/a.b'' @ tool_ext ''unpaywall''"
    by blast
  from t2 h have c: "out_name ''10.1234/a.b'' (Some ''article'') ''elsevier'' =
       ''article'' @ tool_ext ''elsevier''"
    by blast
  from a b v h c show ?thesis by (intro conjI) simp_all
qed

subsection \<open>The batch loop, one identifier at a time\<close>
















subsection \<open>One entry per identifier\<close>




subsection \<open>A failure does not stop the batch\<close>







subsection \<open>Entries and the summary\<close>







end
